theory Spec2Isabelle
  imports Complex_Main "HOL-Library.Multiset"
begin

section \<open>Flood-incident reporting: the state of \<open>script.js\<close> and its operations\<close>

text \<open>
  A coordinate or an accuracy held in the state is a \<open>real\<close>, the finite Number it is;
  the value \<open>null\<close> of an unset field is \<open>None\<close>. The state only stores and compares
  these values with zero. The distance computation does arithmetic on Numbers, which the
  engine rounds and which can give \<open>NaN\<close>: there the arithmetic of the engine is a
  parameter. Every callback of the script runs to completion before the next one starts,
  so an execution is a sequence of calls, each a function from state to state.
\<close>

subsection \<open>Great-circle distance and the nearest evacuation site\<close>

text \<open>
  An evacuation site and a report both carry the properties \<open>lat\<close> and \<open>lng\<close>; the
  two records extend one record of coordinates so that the property names stay as they
  are in the script.
\<close>

record coords =
  lat :: real
  lng :: real

record site = coords +
  name :: string

definition evacuationSites :: "site list" where
  "evacuationSites =
     [\<lparr>lat = 146 / 10, lng = 121, name = ''Evacuation Site 1''\<rparr>,
      \<lparr>lat = 1465 / 100, lng = 12105 / 100, name = ''Evacuation Site 2''\<rparr>,
      \<lparr>lat = 1455 / 100, lng = 12095 / 100, name = ''Evacuation Site 3''\<rparr>]"

text \<open>
  The Numbers of the engine, of some type \<open>'n\<close>, and what the script does with them:
  the Number of a real (a literal or a stored coordinate), the four operators, \<open><\<close>,
  \<open>Infinity\<close>, \<open>Math.PI\<close>, \<open>Math.sin\<close>, \<open>Math.cos\<close>, \<open>Math.sqrt\<close> and
  \<open>Math.atan2\<close>. Nothing is assumed about them: rounding, \<open>NaN\<close> and the infinities are
  whatever the engine makes them.
\<close>

record 'n runtime =
  num_of :: "real \<Rightarrow> 'n"
  num_add :: "'n \<Rightarrow> 'n \<Rightarrow> 'n"
  num_sub :: "'n \<Rightarrow> 'n \<Rightarrow> 'n"
  num_mul :: "'n \<Rightarrow> 'n \<Rightarrow> 'n"
  num_div :: "'n \<Rightarrow> 'n \<Rightarrow> 'n"
  num_less :: "'n \<Rightarrow> 'n \<Rightarrow> bool"
  num_Infinity :: 'n
  math_PI :: 'n
  math_sin :: "'n \<Rightarrow> 'n"
  math_cos :: "'n \<Rightarrow> 'n"
  math_sqrt :: "'n \<Rightarrow> 'n"
  math_atan2 :: "'n \<Rightarrow> 'n \<Rightarrow> 'n"

definition deg2rad :: "'n runtime \<Rightarrow> 'n \<Rightarrow> 'n" where
  "deg2rad rt deg = num_mul rt deg (num_div rt (math_PI rt) (num_of rt 180))"

definition getDistance :: "'n runtime \<Rightarrow> 'n \<Rightarrow> 'n \<Rightarrow> 'n \<Rightarrow> 'n \<Rightarrow> 'n" where
  "getDistance rt lat1 lon1 lat2 lon2 =
     (let R = num_of rt 6371;
          dLat = deg2rad rt (num_sub rt lat2 lat1);
          dLon = deg2rad rt (num_sub rt lon2 lon1);
          a = num_add rt
                (num_mul rt (math_sin rt (num_div rt dLat (num_of rt 2)))
                            (math_sin rt (num_div rt dLat (num_of rt 2))))
                (num_mul rt
                  (num_mul rt
                    (num_mul rt (math_cos rt (deg2rad rt lat1)) (math_cos rt (deg2rad rt lat2)))
                    (math_sin rt (num_div rt dLon (num_of rt 2))))
                  (math_sin rt (num_div rt dLon (num_of rt 2))));
          c = num_mul rt (num_of rt 2)
                (math_atan2 rt (math_sqrt rt a) (math_sqrt rt (num_sub rt (num_of rt 1) a)));
          d = num_mul rt R c
      in d)"

text \<open>
  The body of the \<open>forEach\<close> callback of \<open>findNearestSite\<close>, on the pair
  \<open>(nearestSite, minDistance)\<close> of the enclosing function; \<open>None\<close> is \<open>null\<close>. The
  point is the pair of Numbers that \<open>findNearestSite\<close> was called with.
\<close>

definition nearest_step ::
  "'n runtime \<Rightarrow> 'n \<Rightarrow> 'n \<Rightarrow> site option \<times> 'n \<Rightarrow> site \<Rightarrow> site option \<times> 'n" where
  "nearest_step rt plat plng acc s =
     (let distance = getDistance rt plat plng (num_of rt (lat s)) (num_of rt (lng s))
      in if num_less rt distance (snd acc) then (Some s, distance) else acc)"

text \<open>
  \<open>findNearestSite\<close> scans the global \<open>evacuationSites\<close>; \<open>findNearestSite_in\<close> is the
  same function with the scanned list as an argument. The running minimum starts as
  \<open>Infinity\<close>.
\<close>

definition findNearestSite_in :: "'n runtime \<Rightarrow> site list \<Rightarrow> real \<Rightarrow> real \<Rightarrow> site option" where
  "findNearestSite_in rt sites plat plng =
     fst (foldl (nearest_step rt (num_of rt plat) (num_of rt plng))
            (None, num_Infinity rt) sites)"

definition findNearestSite :: "'n runtime \<Rightarrow> real \<Rightarrow> real \<Rightarrow> site option" where
  "findNearestSite rt plat plng = findNearestSite_in rt evacuationSites plat plng"

text \<open>
  The distance that the scan computes for a site, and what the scan needs of \<open><\<close> on a
  set of Numbers to pick a least one: \<open><\<close> is irreflexive and transitive there, and a
  Number below another is below any third or has the third below the other. On the
  Numbers other than \<open>NaN\<close> the comparison of IEEE 754 is such an order.
\<close>

definition site_distance :: "'n runtime \<Rightarrow> real \<Rightarrow> real \<Rightarrow> site \<Rightarrow> 'n" where
  "site_distance rt plat plng s =
     getDistance rt (num_of rt plat) (num_of rt plng) (num_of rt (lat s)) (num_of rt (lng s))"

definition ordered_by_less :: "'n runtime \<Rightarrow> 'n set \<Rightarrow> bool" where
  "ordered_by_less rt N \<longleftrightarrow>
     (\<forall>a\<in>N. \<not> num_less rt a a) \<and>
     (\<forall>a\<in>N. \<forall>b\<in>N. \<forall>c\<in>N. num_less rt a b \<longrightarrow> num_less rt b c \<longrightarrow> num_less rt a c) \<and>
     (\<forall>a\<in>N. \<forall>b\<in>N. \<forall>c\<in>N. num_less rt a b \<longrightarrow> num_less rt a c \<or> num_less rt c b)"

text \<open>
  An engine without rounding, to write closed examples with: a Number is a real, \<open>NaN\<close>
  or \<open>Infinity\<close>, and an operation on reals gives the exact result where it is a real.
  No engine computes like this one; every property below that mentions a runtime holds
  for all of them.
\<close>

datatype number = NaN | Num real | Infinity

fun exact1 :: "(real \<Rightarrow> real) \<Rightarrow> number \<Rightarrow> number" where
  "exact1 f (Num x) = Num (f x)"
| "exact1 f n = NaN"

fun exact2 :: "(real \<Rightarrow> real \<Rightarrow> real) \<Rightarrow> number \<Rightarrow> number \<Rightarrow> number" where
  "exact2 f (Num x) (Num y) = Num (f x y)"
| "exact2 f n m = NaN"

fun exact_div :: "number \<Rightarrow> number \<Rightarrow> number" where
  "exact_div (Num x) (Num y) = (if y = 0 then NaN else Num (x / y))"
| "exact_div n m = NaN"

fun exact_sqrt :: "number \<Rightarrow> number" where
  "exact_sqrt (Num x) = (if x < 0 then NaN else Num (sqrt x))"
| "exact_sqrt n = NaN"

fun exact_less :: "number \<Rightarrow> number \<Rightarrow> bool" where
  "exact_less (Num x) (Num y) = (x < y)"
| "exact_less (Num x) Infinity = True"
| "exact_less n m = False"

definition real_atan2 :: "real \<Rightarrow> real \<Rightarrow> real" where
  "real_atan2 y x =
     (if 0 < x then arctan (y / x)
      else if x < 0 then (if 0 \<le> y then arctan (y / x) + pi else arctan (y / x) - pi)
      else if 0 < y then pi / 2
      else if y < 0 then - (pi / 2)
      else 0)"

definition exact_runtime :: "number runtime" where
  "exact_runtime =
     \<lparr>num_of = Num, num_add = exact2 (+), num_sub = exact2 (-), num_mul = exact2 (*),
      num_div = exact_div, num_less = exact_less, num_Infinity = Infinity,
      math_PI = Num pi, math_sin = exact1 sin, math_cos = exact1 cos,
      math_sqrt = exact_sqrt, math_atan2 = exact2 real_atan2\<rparr>"

subsection \<open>Reports and the application state\<close>

text \<open>
  The script writes only the literals \<open>"PENDING"\<close> and \<open>"DISPATCHED"\<close> into
  \<open>status\<close> and only \<open>"Critical"\<close>, \<open>"Moderate"\<close> and \<open>"Low"\<close> into
  \<open>urgency\<close>. The severity and the verification mode come from the page and stay
  strings.
\<close>

datatype status = PENDING | DISPATCHED

datatype urgency = Critical | Moderate | Low

record report = coords +
  report_id :: nat
  timestamp :: string
  accuracy :: real
  severity :: string
  urgency :: urgency
  people :: string
  status :: status
  verificationType :: string
  hasPhoto :: bool
  report_sensorVerified :: bool

text \<open>
  The two messages the script passes to \<open>alert\<close>:
  \<open>"Please select a water level severity."\<close> and
  \<open>"Team dispatched to Incident #id"\<close>.
\<close>

datatype alert = Alert_select_severity | Alert_team_dispatched nat

text \<open>
  The state: the object \<open>appState\<close> (its reports and the current location), the
  module-level variables of the form, the two inputs of the page that \<open>submitReport\<close>
  reads (\<open>people-count\<close> and \<open>file-input\<close>), the messages shown by \<open>alert\<close> so
  far, the running interval timers of \<open>setInterval\<close> (handle and watched report id),
  the handles of the timers whose callback has shown the dispatch notice
  ("Help is on the Way!"), once for every time it was shown, and the number of elements
  of class \<open>bg-gray-300\<close> inside the element \<open>step-dispatched\<close> of the page, which
  the callback looks up and changes.
\<close>

record app =
  reports :: "report list"
  currentUserLat :: "real option"
  currentUserLng :: "real option"
  currentUserAccuracy :: "real option"
  selectedSeverityLevel :: string
  currentVerificationMode :: string
  sensorVerified :: bool
  peopleCountValue :: string
  fileInputLength :: nat
  alerts :: "alert list"
  intervals :: "(nat \<times> nat) list"
  nextIntervalId :: nat
  notices :: "nat list"
  stepDispatchedGray :: nat

text \<open>
  The state when the script is loaded; the page supplies the people count and the number
  of gray elements of its step indicator.
\<close>

definition init :: "string \<Rightarrow> nat \<Rightarrow> app" where
  "init pc g =
     \<lparr>reports = [], currentUserLat = None, currentUserLng = None,
      currentUserAccuracy = None, selectedSeverityLevel = [],
      currentVerificationMode = ''photo'', sensorVerified = False,
      peopleCountValue = pc, fileInputLength = 0, alerts = [], intervals = [],
      nextIntervalId = 0, notices = [], stepDispatchedGray = g\<rparr>"

subsection \<open>Location: the geolocation callback and the manual picker\<close>

text \<open>
  The success callback that \<open>startReport\<close> hands to \<open>getCurrentPosition\<close>, with the
  three numbers of \<open>position.coords\<close>; the error callback changes the page only.
\<close>

definition startReport_success :: "real \<Rightarrow> real \<Rightarrow> real \<Rightarrow> app \<Rightarrow> app" where
  "startReport_success latitude longitude acc s =
     s\<lparr>currentUserLat := Some latitude, currentUserLng := Some longitude,
       currentUserAccuracy := Some acc\<rparr>"

definition startReport_error :: "app \<Rightarrow> app" where
  "startReport_error s = s"

text \<open>\<open>confirmManualLocation\<close>, with the position read from the marker of the picker.\<close>

definition confirmManualLocation :: "real \<Rightarrow> real \<Rightarrow> app \<Rightarrow> app" where
  "confirmManualLocation mlat mlng s =
     s\<lparr>currentUserLat := Some mlat, currentUserLng := Some mlng,
       currentUserAccuracy := Some 0\<rparr>"

subsection \<open>The form\<close>

definition selectSeverity :: "string \<Rightarrow> app \<Rightarrow> app" where
  "selectSeverity level s = s\<lparr>selectedSeverityLevel := level\<rparr>"

definition setVerificationMode :: "string \<Rightarrow> app \<Rightarrow> app" where
  "setVerificationMode mode s = s\<lparr>currentVerificationMode := mode\<rparr>"

text \<open>The callback that \<open>runSensorCheck\<close> schedules with \<open>setTimeout\<close>.\<close>

definition runSensorCheck_done :: "app \<Rightarrow> app" where
  "runSensorCheck_done s = s\<lparr>sensorVerified := True\<rparr>"

subsection \<open>The status listener\<close>

text \<open>
  \<open>startUserStatusListener\<close> starts an interval timer; \<open>statusListener_tick h\<close> is one
  run of its callback for the timer with handle \<open>h\<close>. A timer that was cleared, or never
  started, runs no callback.

  When the watched report is \<open>DISPATCHED\<close> the callback first rewrites the status panel
  (icon, title "Help is on the Way!", description, steps): the notice is shown. It then
  calls \<open>querySelector(".bg-gray-300")\<close> on the element \<open>step-dispatched\<close> twice: once to
  add classes to the element found, once to remove the class \<open>bg-gray-300\<close> from it.
  With no such element left \<open>querySelector\<close> returns \<open>null\<close>, the property access throws
  a \<open>TypeError\<close> and the callback ends there: the arrival message and \<open>clearInterval\<close>
  are not reached. Otherwise one element loses the class, and the timer is cleared.
\<close>

definition startUserStatusListener :: "nat \<Rightarrow> app \<Rightarrow> app" where
  "startUserStatusListener reportId s =
     s\<lparr>intervals := intervals s @ [(nextIntervalId s, reportId)],
       nextIntervalId := Suc (nextIntervalId s)\<rparr>"

definition clearInterval :: "nat \<Rightarrow> app \<Rightarrow> app" where
  "clearInterval h s = s\<lparr>intervals := filter (\<lambda>t. fst t \<noteq> h) (intervals s)\<rparr>"

definition statusListener_tick :: "nat \<Rightarrow> app \<Rightarrow> app" where
  "statusListener_tick h s =
     (case map_of (intervals s) h of
        None \<Rightarrow> s
      | Some reportId \<Rightarrow>
          (case find (\<lambda>r. report_id r = reportId) (reports s) of
             None \<Rightarrow> s
           | Some r \<Rightarrow>
               if status r = DISPATCHED
               then
                 let shown = s\<lparr>notices := notices s @ [h]\<rparr>
                 in if stepDispatchedGray shown = 0
                    then shown
                    else clearInterval h
                           (shown\<lparr>stepDispatchedGray := stepDispatchedGray shown - 1\<rparr>)
               else s))"

subsection \<open>Submission\<close>

text \<open>
  \<open>x || d\<close> on a field that is \<open>null\<close> or a number: \<open>null\<close> and \<open>0\<close> are falsy
  and give \<open>d\<close>.
\<close>

definition or_default :: "real option \<Rightarrow> real \<Rightarrow> real" where
  "or_default x d = (case x of None \<Rightarrow> d | Some v \<Rightarrow> if v = 0 then d else v)"

text \<open>
  \<open>submitReport\<close>, with the values of \<open>Date.now()\<close> and of
  \<open>new Date().toLocaleTimeString()\<close> at the call.
\<close>

definition submitReport :: "nat \<Rightarrow> string \<Rightarrow> app \<Rightarrow> app" where
  "submitReport now timeString s =
     (if selectedSeverityLevel s = []
      then s\<lparr>alerts := alerts s @ [Alert_select_severity]\<rparr>
      else
        let urg = (if selectedSeverityLevel s = ''high'' then Critical
                   else if selectedSeverityLevel s = ''med'' then Moderate
                   else Low);
            newReport =
              \<lparr>lat = or_default (currentUserLat s) (145995 / 10000),
               lng = or_default (currentUserLng s) (1209842 / 10000),
               report_id = now,
               timestamp = timeString,
               accuracy = or_default (currentUserAccuracy s) 15,
               severity = selectedSeverityLevel s,
               urgency = urg,
               people = peopleCountValue s,
               status = PENDING,
               verificationType = currentVerificationMode s,
               hasPhoto = (0 < fileInputLength s),
               report_sensorVerified = sensorVerified s\<rparr>
        in startUserStatusListener (report_id newReport)
             (s\<lparr>reports := reports s @ [newReport]\<rparr>))"

subsection \<open>The admin side\<close>

text \<open>
  \<open>Array.prototype.sort\<close> of the runtime with a comparison function: a stable sort
  (ECMAScript 2019), here by insertion; \<open>cmp a b \<le> 0\<close> keeps \<open>a\<close> before \<open>b\<close>.
\<close>

fun sort_insert :: "('a \<Rightarrow> 'a \<Rightarrow> int) \<Rightarrow> 'a \<Rightarrow> 'a list \<Rightarrow> 'a list" where
  "sort_insert cmp x [] = [x]"
| "sort_insert cmp x (y # ys) =
     (if cmp x y \<le> 0 then x # y # ys else y # sort_insert cmp x ys)"

fun array_sort :: "('a \<Rightarrow> 'a \<Rightarrow> int) \<Rightarrow> 'a list \<Rightarrow> 'a list" where
  "array_sort cmp [] = []"
| "array_sort cmp (x # xs) = sort_insert cmp x (array_sort cmp xs)"

fun priority :: "urgency \<Rightarrow> int" where
  "priority Critical = 3"
| "priority Moderate = 2"
| "priority Low = 1"

text \<open>The comparison function and the sorted copy of \<open>renderAdminFeed\<close>.\<close>

definition compare_priority :: "report \<Rightarrow> report \<Rightarrow> int" where
  "compare_priority a b = priority (urgency b) - priority (urgency a)"

definition sortedReports :: "app \<Rightarrow> report list" where
  "sortedReports s = array_sort compare_priority (reports s)"

text \<open>
  \<open>updateStatus\<close>: \<open>find\<close> returns the first report with the id, whose \<open>status\<close> is
  assigned in place; the feed is rendered again and the message is shown. With no such
  report nothing happens.
\<close>

fun assign_status :: "nat \<Rightarrow> status \<Rightarrow> report list \<Rightarrow> report list" where
  "assign_status i st [] = []"
| "assign_status i st (r # rs) =
     (if report_id r = i then r\<lparr>status := st\<rparr> # rs else r # assign_status i st rs)"

definition updateStatus :: "nat \<Rightarrow> status \<Rightarrow> app \<Rightarrow> app" where
  "updateStatus i newStatus s =
     (case find (\<lambda>r. report_id r = i) (reports s) of
        None \<Rightarrow> s
      | Some r \<Rightarrow>
          s\<lparr>reports := assign_status i newStatus (reports s),
            alerts := alerts s @ [Alert_team_dispatched i]\<rparr>)"

subsection \<open>Executions\<close>

text \<open>
  The calls that change the state, as events: the callbacks and functions above, and the
  user editing the two inputs of the page. An execution applies a list of events in
  order, starting when the script is loaded.
\<close>

datatype event =
    Position real real real
  | PositionError
  | ConfirmManualLocation real real
  | SelectSeverity string
  | SetVerificationMode string
  | SensorCheckDone
  | EditPeopleCount string
  | ChooseFiles nat
  | SubmitReport nat string
  | UpdateStatus nat status
  | IntervalTick nat

fun step :: "event \<Rightarrow> app \<Rightarrow> app" where
  "step (Position la lo ac) s = startReport_success la lo ac s"
| "step PositionError s = startReport_error s"
| "step (ConfirmManualLocation la lo) s = confirmManualLocation la lo s"
| "step (SelectSeverity level) s = selectSeverity level s"
| "step (SetVerificationMode mode) s = setVerificationMode mode s"
| "step SensorCheckDone s = runSensorCheck_done s"
| "step (EditPeopleCount v) s = s\<lparr>peopleCountValue := v\<rparr>"
| "step (ChooseFiles n) s = s\<lparr>fileInputLength := n\<rparr>"
| "step (SubmitReport now timeString) s = submitReport now timeString s"
| "step (UpdateStatus i st) s = updateStatus i st s"
| "step (IntervalTick h) s = statusListener_tick h s"

definition run :: "event list \<Rightarrow> app \<Rightarrow> app" where
  "run es s = foldl (\<lambda>s e. step e s) s es"

text \<open>The status that the callback of timer \<open>h\<close> would read, if the timer runs.\<close>

definition watched_status :: "app \<Rightarrow> nat \<Rightarrow> status option" where
  "watched_status s h =
     (case map_of (intervals s) h of
        None \<Rightarrow> None
      | Some reportId \<Rightarrow>
          map_option status (find (\<lambda>r. report_id r = reportId) (reports s)))"

section \<open>Properties\<close>

lemmas ops_defs = run_def init_def submitReport_def startUserStatusListener_def
  selectSeverity_def setVerificationMode_def runSensorCheck_done_def
  confirmManualLocation_def startReport_success_def startReport_error_def
  updateStatus_def or_default_def

subsection \<open>Status updates\<close>

lemma find_assign_status:
  "find (\<lambda>r. report_id r = i) rs = Some r \<Longrightarrow>
   find (\<lambda>r. report_id r = i) (assign_status i st rs) = Some (r\<lparr>status := st\<rparr>)"
  by (induction rs) (auto split: if_splits)

lemma assign_status_idem:
  "assign_status i st (assign_status i st rs) = assign_status i st rs"
  by (induction rs) auto

text \<open>
  C1, as the script has it. \<open>updateStatus\<close> has no failure: for a report that \<open>find\<close>
  returns for the id and that is \<open>PENDING\<close>, the call with \<open>DISPATCHED\<close> sets the status
  and shows the dispatch message; a second identical call is accepted like the first,
  leaves the reports as they are (the status stays \<open>DISPATCHED\<close>) and shows the message
  again; a call with an id that no report has returns the state unchanged, with no
  message.
\<close>

theorem updateStatus_never_fails:
  "(\<forall>r. find (\<lambda>r. report_id r = i) (reports s) = Some r \<and> status r = PENDING \<longrightarrow>
      (let s1 = updateStatus i DISPATCHED s; s2 = updateStatus i DISPATCHED s1
       in find (\<lambda>r. report_id r = i) (reports s1) = Some (r\<lparr>status := DISPATCHED\<rparr>) \<and>
          alerts s1 = alerts s @ [Alert_team_dispatched i] \<and>
          s2 = s1\<lparr>alerts := alerts s1 @ [Alert_team_dispatched i]\<rparr>)) \<and>
   (find (\<lambda>r. report_id r = i) (reports s) = None \<longrightarrow> updateStatus i DISPATCHED s = s)"
  by (auto simp: updateStatus_def Let_def find_assign_status assign_status_idem)

text \<open>One submitted report with id 1: it is found and \<open>PENDING\<close>, then \<open>DISPATCHED\<close>.\<close>

theorem updateStatus_never_fails_witness:
  "map (\<lambda>r. (report_id r, status r))
     (reports (run [SelectSeverity ''high'', SubmitReport 1 ''10:00:00''] (init ''2'' 1))) =
     [(1, PENDING)] \<and>
   map (\<lambda>r. (report_id r, status r))
     (reports (updateStatus 1 DISPATCHED
       (run [SelectSeverity ''high'', SubmitReport 1 ''10:00:00''] (init ''2'' 1)))) =
     [(1, DISPATCHED)]"
  using updateStatus_never_fails
    [of 1 "run [SelectSeverity ''high'', SubmitReport 1 ''10:00:00''] (init ''2'' 1)"]
  by (simp add: ops_defs Let_def)

text \<open>
  The second identical call shows the dispatch message a second time, and the call with
  the unknown id 7 changes nothing: neither call fails.
\<close>

theorem updateStatus_counterexample:
  "alerts (updateStatus 1 DISPATCHED
      (updateStatus 1 DISPATCHED
        (run [SelectSeverity ''high'', SubmitReport 1 ''10:00:00''] (init ''2'' 1)))) =
     [Alert_team_dispatched 1, Alert_team_dispatched 1] \<and>
   updateStatus 7 DISPATCHED
       (run [SelectSeverity ''high'', SubmitReport 1 ''10:00:00''] (init ''2'' 1)) =
     run [SelectSeverity ''high'', SubmitReport 1 ''10:00:00''] (init ''2'' 1)"
  by (simp add: ops_defs Let_def)

subsection \<open>The location of a submitted report\<close>

text \<open>
  C2, at a failing input. The user confirms the manual location (14.70, 121.10), which
  stores the accuracy 0, selects a severity and submits: the report has the picked
  coordinate, but its accuracy is 15, since \<open>0 || 15\<close> is 15.
\<close>

theorem manual_accuracy_replaced:
  "map (\<lambda>r. (lat r, lng r, accuracy r))
     (reports (run [ConfirmManualLocation (147 / 10) (1211 / 10), SelectSeverity ''high'',
                    SubmitReport 1 ''10:00:00''] (init ''2'' 1))) =
   [(147 / 10, 1211 / 10, 15)]"
  by (simp add: ops_defs Let_def)

text \<open>
  C3, at a failing input. The geolocation callback resolves the position
  (0, 121) on the equator with accuracy 10; the submitted report has the default latitude
  14.5995 next to the resolved longitude and accuracy, since \<open>0 || 14.5995\<close> is 14.5995.
  With no location resolved at all, the report has the default coordinate
  (14.5995, 120.9842) and accuracy 15.
\<close>

theorem resolved_zero_replaced:
  "map (\<lambda>r. (lat r, lng r, accuracy r))
     (reports (run [Position 0 121 10, SelectSeverity ''high'',
                    SubmitReport 1 ''10:00:00''] (init ''2'' 1))) =
     [(145995 / 10000, 121, 10)] \<and>
   map (\<lambda>r. (lat r, lng r, accuracy r))
     (reports (run [SelectSeverity ''high'', SubmitReport 1 ''10:00:00''] (init ''2'' 1))) =
     [(145995 / 10000, 1209842 / 10000, 15)]"
  by (simp add: ops_defs Let_def)

text \<open>
  C4, as the script has it. The stored location is the last one written: a geolocation
  callback that runs after \<open>confirmManualLocation\<close> overwrites the location and the
  accuracy with its own values, and a manual confirmation that runs after the callback
  overwrites them with the picked coordinate and accuracy 0.
\<close>

theorem location_last_write_wins:
  "(let s' = startReport_success la lo ac (confirmManualLocation mlat mlng s)
    in (currentUserLat s', currentUserLng s', currentUserAccuracy s') =
       (Some la, Some lo, Some ac)) \<and>
   (let s' = confirmManualLocation mlat mlng (startReport_success la lo ac s)
    in (currentUserLat s', currentUserLng s', currentUserAccuracy s') =
       (Some mlat, Some mlng, Some 0))"
  by (simp add: ops_defs Let_def)

text \<open>
  The manual location (14.70, 121.10) is confirmed, then the callback arrives with
  (14.60, 121.00) and accuracy 10: the manual values are gone.
\<close>

theorem manual_not_sticky_counterexample:
  "(let s = startReport_success (146 / 10) 121 10
              (confirmManualLocation (147 / 10) (1211 / 10) (init ''2'' 1))
    in (currentUserLat s, currentUserLng s, currentUserAccuracy s)) =
   (Some (146 / 10), Some 121, Some 10)"
  by (simp add: ops_defs Let_def)

subsection \<open>The admin feed\<close>

lemma mset_sort_insert: "mset (sort_insert cmp x xs) = add_mset x (mset xs)"
  by (induction xs) simp_all

lemma mset_array_sort: "mset (array_sort cmp xs) = mset xs"
  by (induction xs) (simp_all add: mset_sort_insert)

lemma set_sort_insert: "set (sort_insert cmp x xs) = insert x (set xs)"
  by (induction xs) auto

lemma sorted_sort_insert:
  "sorted_wrt (\<lambda>a b. priority (urgency b) \<le> priority (urgency a)) xs \<Longrightarrow>
   sorted_wrt (\<lambda>a b. priority (urgency b) \<le> priority (urgency a))
     (sort_insert compare_priority x xs)"
  by (induction xs) (auto simp: compare_priority_def set_sort_insert)

lemma sorted_array_sort:
  "sorted_wrt (\<lambda>a b. priority (urgency b) \<le> priority (urgency a))
     (array_sort compare_priority xs)"
  by (induction xs) (simp_all add: sorted_sort_insert)

text \<open>
  Insertion passes only over reports of strictly higher priority, so it never moves a
  report past one of its own urgency.
\<close>

lemma filter_sort_insert:
  "filter (\<lambda>r. urgency r = u) (sort_insert compare_priority x xs) =
   filter (\<lambda>r. urgency r = u) (x # xs)"
  by (induction xs) (auto simp: compare_priority_def)

lemma filter_array_sort:
  "filter (\<lambda>r. urgency r = u) (array_sort compare_priority xs) =
   filter (\<lambda>r. urgency r = u) xs"
  by (induction xs) (simp_all add: filter_sort_insert)

text \<open>
  C5. For every store the feed is ordered by priority descending (Critical 3,
  Moderate 2, Low 1), holds exactly the reports of the store, and the reports of each
  urgency appear in the order of the store. The reports R1 (low), R2 (high), R3 (high),
  R4 (med), submitted in that order, are fed in the order R2, R3, R4, R1.
\<close>

theorem feed_sorted_stable:
  "sorted_wrt (\<lambda>a b. priority (urgency b) \<le> priority (urgency a)) (sortedReports s) \<and>
   mset (sortedReports s) = mset (reports s) \<and>
   (\<forall>u. filter (\<lambda>r. urgency r = u) (sortedReports s) =
        filter (\<lambda>r. urgency r = u) (reports s)) \<and>
   map report_id (sortedReports
     (run [SelectSeverity ''low'', SubmitReport 1 t1,
           SelectSeverity ''high'', SubmitReport 2 t2, SubmitReport 3 t3,
           SelectSeverity ''med'', SubmitReport 4 t4] (init pc g))) = [2, 3, 4, 1]"
  by (simp add: sortedReports_def sorted_array_sort mset_array_sort filter_array_sort)
     (simp add: ops_defs Let_def compare_priority_def)

text \<open>
  The four reports of the example: the two critical ones are fed in the order of their
  submission.
\<close>

theorem feed_sorted_stable_witness:
  "map report_id (filter (\<lambda>r. urgency r = Critical) (sortedReports
     (run [SelectSeverity ''low'', SubmitReport 1 ''10:00:00'',
           SelectSeverity ''high'', SubmitReport 2 ''10:01:00'', SubmitReport 3 ''10:02:00'',
           SelectSeverity ''med'', SubmitReport 4 ''10:03:00''] (init ''2'' 1)))) = [2, 3]"
  using feed_sorted_stable
    [of "run [SelectSeverity ''low'', SubmitReport 1 ''10:00:00'',
           SelectSeverity ''high'', SubmitReport 2 ''10:01:00'', SubmitReport 3 ''10:02:00'',
           SelectSeverity ''med'', SubmitReport 4 ''10:03:00''] (init ''2'' 1)"]
  by (simp add: ops_defs Let_def)

subsection \<open>The nearest site\<close>

lemma ordered_irrefl: "ordered_by_less rt N \<Longrightarrow> a \<in> N \<Longrightarrow> \<not> num_less rt a a"
  unfolding ordered_by_less_def by blast

lemma ordered_trans:
  "ordered_by_less rt N \<Longrightarrow> a \<in> N \<Longrightarrow> b \<in> N \<Longrightarrow> c \<in> N \<Longrightarrow>
   num_less rt a b \<Longrightarrow> num_less rt b c \<Longrightarrow> num_less rt a c"
  unfolding ordered_by_less_def by blast

lemma ordered_split:
  "ordered_by_less rt N \<Longrightarrow> a \<in> N \<Longrightarrow> b \<in> N \<Longrightarrow> c \<in> N \<Longrightarrow>
   num_less rt a b \<Longrightarrow> num_less rt a c \<or> num_less rt c b"
  unfolding ordered_by_less_def by blast

text \<open>
  The scan, for every runtime: if every computed distance is below \<open>Infinity\<close> and \<open><\<close>
  orders the computed distances, the site returned is at a position \<open>i\<close> of the list, no
  site of the list has a smaller computed distance, and every site before position \<open>i\<close>
  has a greater one. A computed distance that is \<open>NaN\<close> is below nothing, and a list
  whose computed distances are all \<open>NaN\<close> leaves the result \<open>null\<close>; whether that
  happens for a point is a matter of the rounding of the engine.
\<close>

lemma nearest_scan:
  assumes below: "\<forall>s\<in>S. num_less rt (site_distance rt plat plng s) (num_Infinity rt)"
    and ord: "ordered_by_less rt (site_distance rt plat plng ` S)"
  shows "sites \<noteq> [] \<Longrightarrow> set sites \<subseteq> S \<Longrightarrow>
   \<exists>i<length sites.
     foldl (nearest_step rt (num_of rt plat) (num_of rt plng)) (None, num_Infinity rt) sites =
       (Some (sites ! i), site_distance rt plat plng (sites ! i)) \<and>
     (\<forall>j<length sites. \<not> num_less rt (site_distance rt plat plng (sites ! j))
                                     (site_distance rt plat plng (sites ! i))) \<and>
     (\<forall>j<i. num_less rt (site_distance rt plat plng (sites ! i))
                        (site_distance rt plat plng (sites ! j)))"
proof (induction sites rule: rev_induct)
  case Nil
  then show ?case by simp
next
  case (snoc x xs)
  let ?d = "site_distance rt plat plng"
  let ?lt = "num_less rt"
  let ?scan = "foldl (nearest_step rt (num_of rt plat) (num_of rt plng)) (None, num_Infinity rt)"
  have step: "nearest_step rt (num_of rt plat) (num_of rt plng) (n, m) x =
      (if ?lt (?d x) m then (Some x, ?d x) else (n, m))" for n m
    by (simp add: nearest_step_def site_distance_def)
  from snoc.prems have xS: "x \<in> S" and xsS: "set xs \<subseteq> S" by simp_all
  have irrefl: "\<not> ?lt (?d a) (?d a)" if "a \<in> S" for a
    using ordered_irrefl [OF ord, of "?d a"] that by blast
  have trans: "?lt (?d a) (?d c)"
    if "?lt (?d a) (?d b)" "?lt (?d b) (?d c)" "a \<in> S" "b \<in> S" "c \<in> S" for a b c
    using ordered_trans [OF ord, of "?d a" "?d b" "?d c"] that by blast
  have split: "?lt (?d a) (?d c) \<or> ?lt (?d c) (?d b)"
    if "?lt (?d a) (?d b)" "a \<in> S" "b \<in> S" "c \<in> S" for a b c
    using ordered_split [OF ord, of "?d a" "?d b" "?d c"] that by blast
  show ?case
  proof (cases "xs = []")
    case True
    have "?lt (?d x) (num_Infinity rt)" using below xS by blast
    then have "?scan (xs @ [x]) = (Some x, ?d x)" using True by (simp add: step)
    moreover have "\<not> ?lt (?d x) (?d x)" using xS by (rule irrefl)
    ultimately show ?thesis using True by simp
  next
    case False
    from snoc.IH [OF False xsS] obtain i where i: "i < length xs"
      and res: "?scan xs = (Some (xs ! i), ?d (xs ! i))"
      and least: "\<forall>j<length xs. \<not> ?lt (?d (xs ! j)) (?d (xs ! i))"
      and first: "\<forall>j<i. ?lt (?d (xs ! i)) (?d (xs ! j))"
      by blast
    have mem: "xs ! j \<in> S" if "j < length xs" for j
      using that xsS nth_mem [of j xs] by blast
    have unfold: "?scan (xs @ [x]) =
        (if ?lt (?d x) (?d (xs ! i)) then (Some x, ?d x) else (Some (xs ! i), ?d (xs ! i)))"
      by (simp add: res step)
    show ?thesis
    proof (cases "?lt (?d x) (?d (xs ! i))")
      case True
      have before: "?lt (?d x) (?d (xs ! j))" if "j < length xs" for j
      proof -
        have "?lt (?d x) (?d (xs ! j)) \<or> ?lt (?d (xs ! j)) (?d (xs ! i))"
          using True xS mem [OF i] mem [OF that] by (rule split)
        then show ?thesis using least that by blast
      qed
      have none: "\<not> ?lt (?d (xs ! j)) (?d x)" if "j < length xs" for j
      proof
        assume "?lt (?d (xs ! j)) (?d x)"
        then have "?lt (?d (xs ! j)) (?d (xs ! i))"
          using True mem [OF that] xS mem [OF i] by (rule trans)
        then show False using least that by blast
      qed
      have self: "\<not> ?lt (?d x) (?d x)" using xS by (rule irrefl)
      have "\<forall>j<length (xs @ [x]). \<not> ?lt (?d ((xs @ [x]) ! j)) (?d x)"
      proof (intro allI impI)
        fix j assume "j < length (xs @ [x])"
        then consider "j < length xs" | "j = length xs" by fastforce
        then show "\<not> ?lt (?d ((xs @ [x]) ! j)) (?d x)"
        proof cases
          case 1
          then show ?thesis using none [OF 1] by (simp add: nth_append)
        next
          case 2
          then show ?thesis using self by simp
        qed
      qed
      moreover have "\<forall>j<length xs. ?lt (?d x) (?d ((xs @ [x]) ! j))"
        using before by (simp add: nth_append)
      ultimately show ?thesis
        using True unfold by (intro exI [of _ "length xs"]) simp
    next
      case False
      have "\<forall>j<length (xs @ [x]). \<not> ?lt (?d ((xs @ [x]) ! j)) (?d (xs ! i))"
      proof (intro allI impI)
        fix j assume "j < length (xs @ [x])"
        then consider "j < length xs" | "j = length xs" by fastforce
        then show "\<not> ?lt (?d ((xs @ [x]) ! j)) (?d (xs ! i))"
        proof cases
          case 1
          then show ?thesis using least by (simp add: nth_append)
        next
          case 2
          then show ?thesis using False by simp
        qed
      qed
      moreover have "\<forall>j<i. ?lt (?d (xs ! i)) (?d ((xs @ [x]) ! j))"
        using first i by (simp add: nth_append)
      ultimately show ?thesis
        using unfold False i by (intro exI [of _ i]) (simp add: nth_append)
    qed
  qed
qed

lemma findNearestSite_least:
  assumes "sites \<noteq> []"
    and "\<forall>s\<in>set sites. num_less rt (site_distance rt plat plng s) (num_Infinity rt)"
    and "ordered_by_less rt (site_distance rt plat plng ` set sites)"
  shows "\<exists>i<length sites.
     findNearestSite_in rt sites plat plng = Some (sites ! i) \<and>
     (\<forall>j<length sites. \<not> num_less rt (site_distance rt plat plng (sites ! j))
                                     (site_distance rt plat plng (sites ! i))) \<and>
     (\<forall>j<i. num_less rt (site_distance rt plat plng (sites ! i))
                        (site_distance rt plat plng (sites ! j)))"
proof -
  from nearest_scan [OF assms(2,3) assms(1) subset_refl] obtain i where
    "i < length sites"
    "foldl (nearest_step rt (num_of rt plat) (num_of rt plng)) (None, num_Infinity rt) sites =
       (Some (sites ! i), site_distance rt plat plng (sites ! i))"
    "\<forall>j<length sites. \<not> num_less rt (site_distance rt plat plng (sites ! j))
                                     (site_distance rt plat plng (sites ! i))"
    "\<forall>j<i. num_less rt (site_distance rt plat plng (sites ! i))
                        (site_distance rt plat plng (sites ! j))"
    by blast
  then show ?thesis
    unfolding findNearestSite_in_def by (intro exI [of _ i]) simp
qed

text \<open>
  The conditions can be met. Without rounding, two sites \<open>A\<close> and \<open>B\<close> at the place of
  the point both have the distance \<open>0\<close>, and the earlier one is returned.
\<close>

lemma exact_distance_zero:
  "site_distance exact_runtime 0 0 \<lparr>lat = 0, lng = 0, name = n\<rparr> = Num 0"
  by (simp add: site_distance_def getDistance_def deg2rad_def exact_runtime_def
      real_atan2_def Let_def)

lemma findNearestSite_least_example:
  "findNearestSite_in exact_runtime
     [\<lparr>lat = 0, lng = 0, name = ''A''\<rparr>, \<lparr>lat = 0, lng = 0, name = ''B''\<rparr>] 0 0 =
   Some \<lparr>lat = 0, lng = 0, name = ''A''\<rparr>"
proof -
  have less: "num_less exact_runtime = exact_less"
    and inf: "num_Infinity exact_runtime = Infinity"
    by (simp_all add: exact_runtime_def)
  show ?thesis
    using findNearestSite_least
      [of "[\<lparr>lat = 0, lng = 0, name = ''A''\<rparr>, \<lparr>lat = 0, lng = 0, name = ''B''\<rparr>]"
          exact_runtime 0 0]
    by (auto simp: exact_distance_zero ordered_by_less_def less inf less_Suc_eq)
qed


text \<open>
  C7, as the script has it. On an empty list of sites the scan runs no callback and
  \<open>findNearestSite\<close> returns the initial \<open>null\<close>, whatever the runtime; the script has
  no error for this.
\<close>

theorem findNearestSite_empty_null: "findNearestSite_in rt [] plat plng = None"
  by (simp add: findNearestSite_in_def)

text \<open>The empty list and the point (14.6, 121): the result is \<open>null\<close>.\<close>

theorem findNearestSite_empty_counterexample:
  "findNearestSite_in exact_runtime [] (146 / 10) 121 = None"
  by (simp add: findNearestSite_in_def)

subsection \<open>Submission and the form\<close>

text \<open>
  C8. With no severity selected, \<open>submitReport\<close> shows the message asking for a severity
  and returns: the state is the one before apart from that message; the reports, the
  location and accuracy, the verification mode and the sensor flag, the people count and
  the chosen files are as before, and no listener is started.
\<close>

theorem submit_without_severity:
  "selectedSeverityLevel s = [] \<Longrightarrow>
   submitReport now timeString s = s\<lparr>alerts := alerts s @ [Alert_select_severity]\<rparr> \<and>
   reports (submitReport now timeString s) = reports s \<and>
   currentUserLat (submitReport now timeString s) = currentUserLat s \<and>
   currentUserLng (submitReport now timeString s) = currentUserLng s \<and>
   currentUserAccuracy (submitReport now timeString s) = currentUserAccuracy s \<and>
   currentVerificationMode (submitReport now timeString s) = currentVerificationMode s \<and>
   sensorVerified (submitReport now timeString s) = sensorVerified s \<and>
   peopleCountValue (submitReport now timeString s) = peopleCountValue s \<and>
   fileInputLength (submitReport now timeString s) = fileInputLength s \<and>
   intervals (submitReport now timeString s) = intervals s"
  by (simp add: submitReport_def)

text \<open>
  A form with a resolved location, a completed sensor check and a people count, but no
  severity.
\<close>

theorem submit_without_severity_witness:
  "selectedSeverityLevel (run [Position (146 / 10) 121 10, SetVerificationMode ''sensor'',
       SensorCheckDone, EditPeopleCount ''4''] (init ''1'' 1)) = [] \<and>
   submitReport 5 ''10:00:00'' (run [Position (146 / 10) 121 10, SetVerificationMode ''sensor'',
       SensorCheckDone, EditPeopleCount ''4''] (init ''1'' 1)) =
   \<lparr>reports = [], currentUserLat = Some (146 / 10), currentUserLng = Some 121,
    currentUserAccuracy = Some 10, selectedSeverityLevel = [],
    currentVerificationMode = ''sensor'', sensorVerified = True,
    peopleCountValue = ''4'', fileInputLength = 0, alerts = [Alert_select_severity],
    intervals = [], nextIntervalId = 0, notices = [], stepDispatchedGray = 1\<rparr>"
  using submit_without_severity [of "run [Position (146 / 10) 121 10, SetVerificationMode ''sensor'',
       SensorCheckDone, EditPeopleCount ''4''] (init ''1'' 1)" 5 "''10:00:00''"]
  by (simp add: ops_defs)

text \<open>
  C10. A submission with a severity selected leaves the selected severity, the
  verification mode, the sensor flag and the stored location and accuracy as they were;
  a second submission right after it appends a second report with the same severity,
  urgency, verification type, sensor flag, coordinate and accuracy as the first.
\<close>

theorem submit_keeps_form_state:
  "selectedSeverityLevel s \<noteq> [] \<Longrightarrow>
   (let s1 = submitReport n1 t1 s; s2 = submitReport n2 t2 s1
    in selectedSeverityLevel s1 = selectedSeverityLevel s \<and>
       currentVerificationMode s1 = currentVerificationMode s \<and>
       sensorVerified s1 = sensorVerified s \<and>
       currentUserLat s1 = currentUserLat s \<and>
       currentUserLng s1 = currentUserLng s \<and>
       currentUserAccuracy s1 = currentUserAccuracy s \<and>
       (\<exists>r1 r2. reports s2 = reports s @ [r1, r2] \<and>
          report_id r1 = n1 \<and> report_id r2 = n2 \<and>
          severity r2 = severity r1 \<and> urgency r2 = urgency r1 \<and>
          verificationType r2 = verificationType r1 \<and>
          report_sensorVerified r1 = sensorVerified s \<and>
          report_sensorVerified r2 = sensorVerified s \<and>
          lat r2 = lat r1 \<and> lng r2 = lng r1 \<and> accuracy r2 = accuracy r1))"
  by (simp add: submitReport_def startUserStatusListener_def Let_def)

text \<open>
  The sensor check runs once, before the first submission; the second report also says
  that the sensor verified it.
\<close>

theorem submit_keeps_form_state_witness:
  "selectedSeverityLevel (run [SelectSeverity ''high'', SetVerificationMode ''sensor'',
       SensorCheckDone] (init ''3'' 1)) \<noteq> [] \<and>
   map (\<lambda>r. (report_id r, severity r, verificationType r, report_sensorVerified r))
     (reports (submitReport 2 ''10:05:00'' (submitReport 1 ''10:00:00''
        (run [SelectSeverity ''high'', SetVerificationMode ''sensor'',
              SensorCheckDone] (init ''3'' 1))))) =
   [(1, ''high'', ''sensor'', True), (2, ''high'', ''sensor'', True)]"
  using submit_keeps_form_state [of "run [SelectSeverity ''high'', SetVerificationMode ''sensor'',
       SensorCheckDone] (init ''3'' 1)" 1 "''10:00:00''" 2 "''10:05:00''"]
  by (simp add: ops_defs Let_def)

subsection \<open>The status listener along executions\<close>

lemma tick_without_gray:
  "stepDispatchedGray s = 0 \<Longrightarrow> watched_status s h = Some DISPATCHED \<Longrightarrow>
   statusListener_tick h s = s\<lparr>notices := notices s @ [h]\<rparr>"
  by (auto simp: statusListener_tick_def watched_status_def Let_def split: option.splits)

lemma watched_status_notices:
  "watched_status (s\<lparr>notices := ns\<rparr>) h = watched_status s h"
  by (simp add: watched_status_def split: option.splits)

text \<open>
  C9, where the script fails it. Once no element of class \<open>bg-gray-300\<close> is left in the
  step indicator (each completed notice takes one away), a running timer whose report is
  \<open>DISPATCHED\<close> shows its notice at every tick and is never cleared: after \<open>n\<close> ticks the
  notice has been shown \<open>n\<close> more times and the timers are as they were.
\<close>

theorem status_listener_repeats:
  "stepDispatchedGray s = 0 \<Longrightarrow> watched_status s h = Some DISPATCHED \<Longrightarrow>
   notices ((statusListener_tick h ^^ n) s) = notices s @ replicate n h \<and>
   intervals ((statusListener_tick h ^^ n) s) = intervals s \<and>
   watched_status ((statusListener_tick h ^^ n) s) h = Some DISPATCHED"
proof (induction n)
  case 0
  then show ?case by simp
next
  case (Suc n)
  let ?s = "(statusListener_tick h ^^ n) s"
  from Suc have IH: "notices ?s = notices s @ replicate n h"
    "intervals ?s = intervals s" "watched_status ?s h = Some DISPATCHED"
    by simp_all
  have gray: "stepDispatchedGray ?s = 0"
  proof (induction n)
    case 0
    from Suc.prems show ?case by simp
  next
    case (Suc m)
    then show ?case
      by (simp add: statusListener_tick_def clearInterval_def Let_def split: option.splits)
  qed
  have "statusListener_tick h ?s = ?s\<lparr>notices := notices ?s @ [h]\<rparr>"
    using gray IH(3) by (rule tick_without_gray)
  then show ?case
    using IH by (simp add: watched_status_notices replicate_append_same)
qed

text \<open>
  A page with one gray element. Two reports are submitted and both are dispatched. The
  timer of the first report shows its notice once and is cleared. The timer of the
  second shows its notice at each of its three ticks and is still running.
\<close>

theorem status_listener_repeats_witness:
  "stepDispatchedGray
     (run [SelectSeverity ''high'', SubmitReport 1 ''10:00:00'', SubmitReport 2 ''10:01:00'',
           UpdateStatus 1 DISPATCHED, IntervalTick 0, IntervalTick 1,
           UpdateStatus 2 DISPATCHED] (init ''2'' 1)) = 0 \<and>
   watched_status
     (run [SelectSeverity ''high'', SubmitReport 1 ''10:00:00'', SubmitReport 2 ''10:01:00'',
           UpdateStatus 1 DISPATCHED, IntervalTick 0, IntervalTick 1,
           UpdateStatus 2 DISPATCHED] (init ''2'' 1)) 1 = Some DISPATCHED \<and>
   notices (run [SelectSeverity ''high'', SubmitReport 1 ''10:00:00'', SubmitReport 2 ''10:01:00'',
           UpdateStatus 1 DISPATCHED, IntervalTick 0, IntervalTick 1,
           UpdateStatus 2 DISPATCHED, IntervalTick 1, IntervalTick 1, IntervalTick 1]
          (init ''2'' 1)) = [0, 1, 1, 1] \<and>
   intervals (run [SelectSeverity ''high'', SubmitReport 1 ''10:00:00'', SubmitReport 2 ''10:01:00'',
           UpdateStatus 1 DISPATCHED, IntervalTick 0, IntervalTick 1,
           UpdateStatus 2 DISPATCHED, IntervalTick 1, IntervalTick 1, IntervalTick 1]
          (init ''2'' 1)) = [(1, 2)]"
  using status_listener_repeats
    [of "run [SelectSeverity ''high'', SubmitReport 1 ''10:00:00'', SubmitReport 2 ''10:01:00'',
           UpdateStatus 1 DISPATCHED, IntervalTick 0, IntervalTick 1,
           UpdateStatus 2 DISPATCHED] (init ''2'' 1)" 1 3]
  by (simp add: ops_defs Let_def statusListener_tick_def clearInterval_def watched_status_def)

end
